theory Spec2Isabelle
  imports Main "HOL-Library.Sublist"
begin

section \<open>JavaScript values\<close>

text \<open>
  The handlers pass parsed JSON around untyped, so the model keeps one type of run-time
  values: what \<^verbatim>\<open>JSON.parse\<close> and \<^verbatim>\<open>response.json()\<close> return, plus \<^verbatim>\<open>undefined\<close>,
  which a property read gives for a missing field. An object is its list of fields.
\<close>

datatype js_value =
    JUndefined
  | JNull
  | JBool bool
  | JNum int
  | JStr string
  | JArr "js_value list"
  | JObj "(string \<times> js_value) list"

text \<open>
  A thrown value: an \<^verbatim>\<open>Error\<close> object with its message and its stack trace, or any
  other value, kept as what \<^verbatim>\<open>String(error)\<close> renders.
\<close>

datatype js_thrown =
    JsError string string
  | JsOther string

text \<open>\<^verbatim>\<open>error instanceof Error ? error.message : String(error)\<close>\<close>

fun error_text :: "js_thrown \<Rightarrow> string" where
  "error_text (JsError message stack) = message"
| "error_text (JsOther rendered) = rendered"

text \<open>Property read \<^verbatim>\<open>v.k\<close> on a value that is neither \<^verbatim>\<open>null\<close> nor \<^verbatim>\<open>undefined\<close>
  (on those the read throws, which each handler below decides before it calls this).\<close>

fun get_prop :: "js_value \<Rightarrow> string \<Rightarrow> js_value" where
  "get_prop (JObj fields) k = (case map_of fields k of None \<Rightarrow> JUndefined | Some v \<Rightarrow> v)"
| "get_prop v k = JUndefined"

text \<open>\<^verbatim>\<open>!!v\<close>\<close>

fun truthy :: "js_value \<Rightarrow> bool" where
  "truthy JUndefined = False"
| "truthy JNull = False"
| "truthy (JBool b) = b"
| "truthy (JNum n) = (n \<noteq> 0)"
| "truthy (JStr s) = (s \<noteq> [])"
| "truthy (JArr xs) = True"
| "truthy (JObj fields) = True"

text \<open>A non-negative integer in a template string: \<^verbatim>\<open>`${n}`\<close>, \<^verbatim>\<open>n.toString()\<close>.\<close>

function string_of_nat :: "nat \<Rightarrow> string" where
  "string_of_nat n =
     (if n < 10 then [''0123456789'' ! n]
      else string_of_nat (n div 10) @ [''0123456789'' ! (n mod 10)])"
  by pat_completeness auto
termination
  by (relation "measure (\<lambda>n. n)") auto

declare string_of_nat.simps [simp del]

text \<open>
  \<^verbatim>\<open>String.prototype.trim\<close>: white space and line terminators are dropped at both ends.
  The characters of the model are single bytes, so the white space is that of Latin-1:
  TAB, LF, VT, FF, CR, SPACE and NBSP.
\<close>

definition is_white_space :: "char \<Rightarrow> bool" where
  "is_white_space c = (of_char c \<in> {9, 10, 11, 12, 13, 32, 160 :: nat})"

definition trim :: "string \<Rightarrow> string" where
  "trim s = rev (dropWhile is_white_space (rev (dropWhile is_white_space s)))"

text \<open>\<^verbatim>\<open>s.replace(pattern, replacement)\<close> with a string pattern: the first occurrence only.\<close>

fun replace :: "string \<Rightarrow> string \<Rightarrow> string \<Rightarrow> string" where
  "replace [] pattern replacement = (if pattern = [] then replacement else [])"
| "replace (c # cs) pattern replacement =
     (if prefix pattern (c # cs) then replacement @ drop (length pattern) (c # cs)
      else c # replace cs pattern replacement)"


section \<open>HTTP: the upstream call and the response of a route\<close>

text \<open>
  What \<^verbatim>\<open>await fetch(...)\<close> gives: it rejects, or it resolves to a response with its
  \<^verbatim>\<open>ok\<close> flag, its status and what \<^verbatim>\<open>await response.json()\<close> will give (which may
  reject as well).
\<close>

record fetch_response =
  ok :: bool
  status :: nat
  json :: "js_thrown + js_value"

datatype fetch_outcome =
    Rejected js_thrown
  | Resolved fetch_response

text \<open>\<^verbatim>\<open>NextResponse.json(body, { status })\<close>; the status is 200 when none is given.\<close>

record next_response =
  res_status :: nat
  res_body :: js_value

definition NextResponse_json :: "js_value \<Rightarrow> nat \<Rightarrow> next_response" where
  "NextResponse_json b st = \<lparr>res_status = st, res_body = b\<rparr>"

definition is_2xx :: "nat \<Rightarrow> bool" where
  "is_2xx st = (200 \<le> st \<and> st \<le> 299)"

text \<open>
  The statements every route shares after its \<^verbatim>\<open>fetch\<close>:
  \<^verbatim>\<open>if (!response.ok) throw new Error(`Error: ${response.status}`);
  const data = await response.json();\<close>
  \<open>trace\<close> is the stack the runtime records in the \<^verbatim>\<open>Error\<close> made here.
\<close>

definition checked_json :: "string \<Rightarrow> fetch_outcome \<Rightarrow> js_thrown + js_value" where
  "checked_json trace fetched =
     (case fetched of
        Rejected e \<Rightarrow> Inl e
      | Resolved response \<Rightarrow>
          if \<not> ok response
          then Inl (JsError (''Error: '' @ string_of_nat (status response)) trace)
          else json response)"


section \<open>The API routes\<close>

subsection \<open>GET /api/agents\<close>

definition fallback_agents_part_000 :: js_value where
  "fallback_agents_part_000 =
     JObj [(''agents'', JArr [
       JObj [(''name'', JStr ''support-agent''),
             (''role'', JStr ''Customer Support''),
             (''description'', JStr ''Helps with technical issues'')],
       JObj [(''name'', JStr ''sales-agent''),
             (''role'', JStr ''Sales Representative''),
             (''description'', JStr ''Provides product information'')],
       JObj [(''name'', JStr ''advisor-agent''),
             (''role'', JStr ''Financial Advisor''),
             (''description'', JStr ''Offers financial guidance'')]])]"

text \<open>\<^verbatim>\<open>GET\<close> of \<^verbatim>\<open>src/unnamed/part_000\<close>; \<open>fetched\<close> is the outcome of the registry call.\<close>

definition GET_part_000 :: "string \<Rightarrow> fetch_outcome \<Rightarrow> next_response" where
  "GET_part_000 trace fetched =
     (case checked_json trace fetched of
        Inr data \<Rightarrow> NextResponse_json data 200
      | Inl error \<Rightarrow> NextResponse_json fallback_agents_part_000 200)"

definition fallback_agents_route :: js_value where
  "fallback_agents_route =
     JObj [(''agents'', JArr [
       JObj [(''name'', JStr ''general-assistant''),
             (''role'', JStr ''General Assistant''),
             (''description'', JStr ''A helpful, concise assistant providing clear answers'')],
       JObj [(''name'', JStr ''technical-assistant''),
             (''role'', JStr ''Developer Assistant''),
             (''description'',
                JStr ''Expert developer assistant providing code examples and technical advice'')],
       JObj [(''name'', JStr ''creative-writer''),
             (''role'', JStr ''Creative Writer''),
             (''description'', JStr ''Creative writing assistant producing vivid, original text'')],
       JObj [(''name'', JStr ''fact-checker''),
             (''role'', JStr ''Fact Checker''),
             (''description'', JStr ''Careful fact-checker verifying claims with sources'')],
       JObj [(''name'', JStr ''tutor''),
             (''role'', JStr ''Tutor''),
             (''description'', JStr ''Patient tutor explaining concepts with examples'')]])]"

text \<open>\<^verbatim>\<open>GET\<close> of \<^verbatim>\<open>attack-capital/frontend/app/src/app/api/agents/route.ts\<close>.\<close>

definition GET_agents_route :: "string \<Rightarrow> fetch_outcome \<Rightarrow> next_response" where
  "GET_agents_route trace fetched =
     (case checked_json trace fetched of
        Inr data \<Rightarrow> NextResponse_json data 200
      | Inl error \<Rightarrow> NextResponse_json fallback_agents_route 200)"

text \<open>The names in an agents listing: \<^verbatim>\<open>data.agents.map(a => a.name)\<close>.\<close>

definition agent_names :: "js_value \<Rightarrow> js_value list" where
  "agent_names listing =
     (case get_prop listing ''agents'' of
        JArr agents \<Rightarrow> map (\<lambda>a. get_prop a ''name'') agents
      | _ \<Rightarrow> [])"

subsection \<open>The POST proxies\<close>

text \<open>
  The \<^verbatim>\<open>try\<close> block the three POST routes share: read the request's JSON body, forward
  it to the backend, check the response. \<open>request_json\<close> is what
  \<^verbatim>\<open>await request.json()\<close> gives, \<open>fetched\<close> the outcome of the call that forwards
  the body (there is no such call when reading the body throws).
\<close>

definition forward :: "string \<Rightarrow> js_thrown + js_value \<Rightarrow> fetch_outcome \<Rightarrow> js_thrown + js_value" where
  "forward trace request_json fetched =
     (case request_json of
        Inl e \<Rightarrow> Inl e
      | Inr body \<Rightarrow> checked_json trace fetched)"

definition apology_agent_response :: string where
  "apology_agent_response =
     ''I'' @ [CHR 0x27] @ ''m sorry, I encountered an error processing your request. Please try again later.''"

text \<open>\<^verbatim>\<open>POST\<close> of \<^verbatim>\<open>src/unnamed/part_007\<close> (/api/agent-response).\<close>

definition POST_agent_response :: "string \<Rightarrow> js_thrown + js_value \<Rightarrow> fetch_outcome \<Rightarrow> next_response" where
  "POST_agent_response trace request_json fetched =
     (case forward trace request_json fetched of
        Inr data \<Rightarrow> NextResponse_json data 200
      | Inl error \<Rightarrow>
          NextResponse_json
            (JObj [(''response'', JStr apology_agent_response), (''agent'', JStr ''system'')])
            500)"

text \<open>\<^verbatim>\<open>POST\<close> of \<^verbatim>\<open>frontend/app/src/app/api/handoff/route.ts\<close>.\<close>

definition trouble_switching :: string where
  "trouble_switching =
     ''I'' @ [CHR 0x27] @ ''m having trouble switching agents right now. Please try again later.''"

definition POST_handoff :: "string \<Rightarrow> js_thrown + js_value \<Rightarrow> fetch_outcome \<Rightarrow> next_response" where
  "POST_handoff trace request_json fetched =
     (case forward trace request_json fetched of
        Inr data \<Rightarrow> NextResponse_json data 200
      | Inl error \<Rightarrow>
          NextResponse_json
            (JObj [(''success'', JBool False),
                   (''message'', JStr trouble_switching),
                   (''error'', JStr (error_text error))])
            500)"

text \<open>\<^verbatim>\<open>POST\<close> of the create-room route (second part of the agents route file).\<close>

definition POST_create_room :: "string \<Rightarrow> js_thrown + js_value \<Rightarrow> fetch_outcome \<Rightarrow> next_response" where
  "POST_create_room trace request_json fetched =
     (case forward trace request_json fetched of
        Inr data \<Rightarrow> NextResponse_json data 200
      | Inl error \<Rightarrow>
          NextResponse_json
            (JObj [(''error'', JStr ''Failed to create room. Please try again.''),
                   (''details'', JStr (error_text error))])
            500)"


section \<open>The chat page (WebSocket client)\<close>

text \<open>
  \<^verbatim>\<open>Message\<close> of \<^verbatim>\<open>src/unnamed/part_001\<close>. The fields \<open>content\<close>, \<open>sender\<close> and
  \<open>username\<close> are declared strings, but at run time they hold whatever the frame or the
  reply carried, \<^verbatim>\<open>undefined\<close> for a missing field; the optional flags are absent
  (\<open>None\<close>) in the messages the page builds itself. The field \<^verbatim>\<open>id\<close> is \<open>msg_id\<close> here.
\<close>

record Message =
  msg_id :: string
  content :: js_value
  sender :: js_value
  timestamp :: nat
  username :: js_value
  isSystem :: "bool option"
  isUser :: "bool option"

datatype ready_state = CONNECTING | OPEN | CLOSING | CLOSED

text \<open>
  The state of \<^verbatim>\<open>ChatPage\<close>: its \<^verbatim>\<open>useState\<close> cells and the browser's
  \<^verbatim>\<open>localStorage\<close> (its entries in order). \<open>websocket\<close> is \<open>None\<close> for \<^verbatim>\<open>null\<close>,
  otherwise the socket's \<^verbatim>\<open>readyState\<close>. The page's own user name is \<open>page_username\<close>.
\<close>

type_synonym storage = "(string \<times> string) list"

definition getItem :: "storage \<Rightarrow> string \<Rightarrow> string option" where
  "getItem entries k = map_of entries k"

fun setItem :: "storage \<Rightarrow> string \<Rightarrow> string \<Rightarrow> storage" where
  "setItem [] k v = [(k, v)]"
| "setItem ((k', v') # entries) k v =
     (if k' = k then (k, v) # entries else (k', v') # setItem entries k v)"

record ChatPage =
  messages :: "Message list"
  isConnected :: bool
  page_username :: string
  roomName :: string
  websocket :: "ready_state option"
  currentAgent :: string
  localStorage :: storage

text \<open>
  The state at the first render: the initial values of the \<^verbatim>\<open>useState\<close> cells, with
  \<^verbatim>\<open>localStorage.getItem("selected_agent") || "support-agent"\<close> for the agent.
\<close>

definition ChatPage_initial :: "storage \<Rightarrow> ChatPage" where
  "ChatPage_initial entries =
     \<lparr>messages = [],
      isConnected = False,
      page_username = [],
      roomName = [],
      websocket = None,
      currentAgent =
        (case getItem entries ''selected_agent'' of
           None \<Rightarrow> ''support-agent''
         | Some saved \<Rightarrow> if saved = [] then ''support-agent'' else saved),
      localStorage = entries\<rparr>"

text \<open>What a handler sends out: a WebSocket frame, an HTTP POST (URL and JSON body), or a
  chat message published to the LiveKit room.\<close>

datatype effect =
    WsSend js_value
  | Fetch string js_value
  | SendChatMessage string

text \<open>An exception no \<^verbatim>\<open>catch\<close> of the page handles.\<close>

datatype client_error = SyntaxError | TypeError

text \<open>
  The \<^verbatim>\<open>try\<close> block of a client call up to \<^verbatim>\<open>await response.json()\<close>:
  \<open>None\<close> when the fetch rejects, the response is not ok, or the body does not parse.
  The \<^verbatim>\<open>catch\<close> blocks of the page only log what was thrown, so it is not kept.
\<close>

definition client_data :: "fetch_outcome \<Rightarrow> js_value option" where
  "client_data fetched =
     (case fetched of
        Rejected e \<Rightarrow> None
      | Resolved response \<Rightarrow>
          if \<not> ok response then None
          else (case json response of Inl e \<Rightarrow> None | Inr data \<Rightarrow> Some data))"

text \<open>
  \<^verbatim>\<open>ws.onmessage\<close>. \<open>parsed\<close> is what \<^verbatim>\<open>JSON.parse(event.data)\<close> gives (\<open>None\<close>: it
  throws), \<open>now\<close> is \<^verbatim>\<open>Date.now()\<close> and \<open>date\<close> is \<^verbatim>\<open>new Date()\<close>. Reading
  \<^verbatim>\<open>data.type\<close> of \<^verbatim>\<open>null\<close> throws.
  \<^verbatim>\<open>Date.now()\<close> is a whole number of milliseconds below \<^verbatim>\<open>1e21\<close>, so its
  \<^verbatim>\<open>toString()\<close> is its decimal digits.
\<close>

definition ws_onmessage :: "nat \<Rightarrow> nat \<Rightarrow> js_value option \<Rightarrow> ChatPage \<Rightarrow> client_error + ChatPage" where
  "ws_onmessage now date parsed s =
     (case parsed of
        None \<Rightarrow> Inl SyntaxError
      | Some data \<Rightarrow>
          if data = JNull \<or> data = JUndefined then Inl TypeError
          else if get_prop data ''type'' = JStr ''message'' \<or> get_prop data ''type'' = JStr ''system''
          then Inr (s\<lparr>messages := messages s @
                 [\<lparr>msg_id = string_of_nat now,
                   content = get_prop data ''content'',
                   sender = get_prop data ''sender'',
                   timestamp = date,
                   username = get_prop data ''username'',
                   isSystem = Some (get_prop data ''type'' = JStr ''system''),
                   isUser = Some (truthy (get_prop data ''isUser''))\<rparr>]\<rparr>)
          else Inr s)"

text \<open>
  \<^verbatim>\<open>sendMessage\<close> up to its \<^verbatim>\<open>await fetch\<close>: the state it leaves and what it sends.
\<close>

definition sendMessage :: "string \<Rightarrow> ChatPage \<Rightarrow> ChatPage \<times> effect list" where
  "sendMessage line s =
     (if trim line = [] then (s, [])
      else if websocket s = Some OPEN
      then (s, [WsSend (JObj [(''message'', JStr line), (''agent'', JStr (currentAgent s))])])
      else (s, [Fetch (''/api/agent-response?agent='' @ currentAgent s)
                  (JObj [(''username'', JStr (page_username s)), (''message'', JStr line)])]))"

definition sorry_message :: string where
  "sorry_message = ''Sorry, I couldn'' @ [CHR 0x27] @ ''t process your message. Please try again.''"

text \<open>
  \<^verbatim>\<open>sendMessage\<close> from the moment its fetch settles. \<open>agent\<close> is the \<^verbatim>\<open>currentAgent\<close>
  the call closed over, \<open>s\<close> the state at that moment (the updaters are functional).
  The updater reads \<^verbatim>\<open>data.response\<close> when React runs it, outside the \<^verbatim>\<open>try\<close>, so
  for a \<^verbatim>\<open>null\<close> body it throws a \<^verbatim>\<open>TypeError\<close> during rendering and there is no next
  state (\<open>Inl\<close>).
\<close>

definition sendMessage_settled :: "nat \<Rightarrow> nat \<Rightarrow> string \<Rightarrow> fetch_outcome \<Rightarrow> ChatPage
    \<Rightarrow> client_error + ChatPage" where
  "sendMessage_settled now date agent fetched s =
     (case client_data fetched of
        Some data \<Rightarrow>
          if data = JNull \<or> data = JUndefined then Inl TypeError
          else Inr (s\<lparr>messages := messages s @
                 [\<lparr>msg_id = string_of_nat now,
                   content = get_prop data ''response'',
                   sender = (if truthy (get_prop data ''agent'') then get_prop data ''agent''
                             else JStr agent),
                   timestamp = date,
                   username = JUndefined,
                   isSystem = None,
                   isUser = None\<rparr>]\<rparr>)
      | None \<Rightarrow>
          Inr (s\<lparr>messages := messages s @
                 [\<lparr>msg_id = string_of_nat now,
                   content = JStr sorry_message,
                   sender = JStr ''system'',
                   timestamp = date,
                   username = JUndefined,
                   isSystem = None,
                   isUser = None\<rparr>]\<rparr>))"

text \<open>\<^verbatim>\<open>handleAgentChange\<close> up to its \<^verbatim>\<open>await fetch\<close>.\<close>

definition handleAgentChange :: "nat \<Rightarrow> nat \<Rightarrow> string \<Rightarrow> ChatPage \<Rightarrow> ChatPage \<times> effect list" where
  "handleAgentChange now date agentName s =
     (s\<lparr>currentAgent := agentName,
        localStorage := setItem (localStorage s) ''selected_agent'' agentName,
        messages := messages s @
          [\<lparr>msg_id = string_of_nat now,
            content = JStr (''Switching to '' @ replace agentName ''-agent'' [] @ '' agent...''),
            sender = JStr ''system'',
            timestamp = date,
            username = JUndefined,
            isSystem = None,
            isUser = None\<rparr>]\<rparr>,
      [Fetch ''/api/handoff''
         (JObj [(''username'', JStr (page_username s)),
                (''from_agent'', JStr ''current-agent''),
                (''to_agent'', JStr agentName),
                (''reason'', JStr ''User requested agent change'')])])"

text \<open>
  \<^verbatim>\<open>handleAgentChange\<close> from the moment its fetch settles. The \<^verbatim>\<open>catch\<close> calls
  \<^verbatim>\<open>console.error\<close> and nothing else; the updater reads \<^verbatim>\<open>data.message\<close> when React runs
  it, so for a \<^verbatim>\<open>null\<close> body it throws during rendering (\<open>Inl\<close>).
\<close>

definition handleAgentChange_settled :: "nat \<Rightarrow> nat \<Rightarrow> fetch_outcome \<Rightarrow> ChatPage
    \<Rightarrow> client_error + ChatPage" where
  "handleAgentChange_settled now date fetched s =
     (case client_data fetched of
        Some data \<Rightarrow>
          if data = JNull \<or> data = JUndefined then Inl TypeError
          else Inr (s\<lparr>messages := messages s @
                 [\<lparr>msg_id = string_of_nat now,
                   content = get_prop data ''message'',
                   sender = get_prop data ''to_agent'',
                   timestamp = date,
                   username = JUndefined,
                   isSystem = None,
                   isUser = None\<rparr>]\<rparr>)
      | None \<Rightarrow> Inr s)"

text \<open>How the browser sees the response of a route of the same application.\<close>

definition served :: "next_response \<Rightarrow> fetch_outcome" where
  "served r = Resolved \<lparr>ok = is_2xx (res_status r), status = res_status r, json = Inr (res_body r)\<rparr>"

text \<open>
  The events of the page, and the page as a transition system: each event runs one
  handler on the current state. An exception thrown inside \<^verbatim>\<open>ws.onmessage\<close> is reported
  by the browser and leaves the state as it was (\<open>kept\<close>). The \<^verbatim>\<open>TypeError\<close> of a settled
  reply or handoff is thrown by the state updater while React renders, and the page is
  unmounted: that step has no next state (\<open>Inl\<close>), and a run ends there.
\<close>

datatype page_event =
    Frame nat nat "js_value option"
  | Send string
  | ReplySettled nat nat string fetch_outcome
  | AgentChange nat nat string
  | HandoffSettled nat nat fetch_outcome

fun kept :: "ChatPage \<Rightarrow> client_error + ChatPage \<Rightarrow> ChatPage" where
  "kept s (Inl e) = s"
| "kept s (Inr s') = s'"

fun page_step :: "ChatPage \<Rightarrow> page_event \<Rightarrow> client_error + ChatPage" where
  "page_step s (Frame now date parsed) = Inr (kept s (ws_onmessage now date parsed s))"
| "page_step s (Send line) = Inr (fst (sendMessage line s))"
| "page_step s (ReplySettled now date agent fetched) =
     sendMessage_settled now date agent fetched s"
| "page_step s (AgentChange now date agentName) =
     Inr (fst (handleAgentChange now date agentName s))"
| "page_step s (HandoffSettled now date fetched) =
     handleAgentChange_settled now date fetched s"

fun page_run :: "ChatPage \<Rightarrow> page_event list \<Rightarrow> client_error + ChatPage" where
  "page_run s [] = Inr s"
| "page_run s (event # events) =
     (case page_step s event of
        Inl crash \<Rightarrow> Inl crash
      | Inr s' \<Rightarrow> page_run s' events)"


section \<open>The LiveKit chat component\<close>

text \<open>
  \<^verbatim>\<open>ChatMessage\<close> and \<^verbatim>\<open>ReceivedMessage\<close> of \<^verbatim>\<open>frontend/src/types/chat.ts\<close>; the field
  names carry a prefix where they would clash with those of the chat page. A timestamp
  is a JavaScript \<^verbatim>\<open>number\<close>, and a received one is whatever number the sender put into
  the message; the model leaves the type of numbers open (\<open>'n\<close>) and takes the text a
  template string prints for a number, \<^verbatim>\<open>`${n}`\<close>, as the function \<open>number_text\<close>.
\<close>

record 'n ChatMessage =
  chat_id :: string
  chat_text :: string
  chat_sender :: string
  chat_timestamp :: 'n
  isAgent :: bool

record 'n ReceivedMessage =
  received_type :: string
  received_text :: string
  received_timestamp :: 'n

text \<open>
  The state of the \<^verbatim>\<open>Chat\<close> component (both \<^verbatim>\<open>frontend/src/components/Chat.tsx\<close> and
  \<^verbatim>\<open>src/unnamed/part_002\<close>); \<open>roomRef_current\<close> says whether \<^verbatim>\<open>roomRef.current\<close> holds
  a room.
\<close>

record 'n Chat =
  chat_messages :: "'n ChatMessage list"
  inputText :: string
  chat_isConnected :: bool
  roomRef_current :: bool
  chat_error :: "string option"

text \<open>
  \<^verbatim>\<open>handleMessageReceived\<close>. \<open>agentName\<close> is the component's property in
  \<^verbatim>\<open>part_002\<close> and the constant \<^verbatim>\<open>AGENT_IDENTITY\<close> in \<^verbatim>\<open>Chat.tsx\<close> (its module is not
  among the sources); \<open>identity\<close> is \<^verbatim>\<open>participant.identity\<close>.
\<close>

definition handleMessageReceived :: "('n \<Rightarrow> string) \<Rightarrow> string \<Rightarrow> 'n ReceivedMessage \<Rightarrow> string
    \<Rightarrow> 'n Chat \<Rightarrow> 'n Chat" where
  "handleMessageReceived number_text agentName message identity s =
     (if received_type message \<noteq> ''chat'' then s
      else
        let isAgent = (identity = agentName);
            sender = (if isAgent then agentName else identity)
        in s\<lparr>chat_messages := chat_messages s @
               [\<lparr>chat_id = number_text (received_timestamp message) @ ''-'' @ sender,
                 chat_text = received_text message,
                 chat_sender = sender,
                 chat_timestamp = received_timestamp message,
                 isAgent = isAgent\<rparr>]\<rparr>)"

text \<open>
  \<^verbatim>\<open>handleSendMessage\<close>. \<open>now\<close> and \<open>now'\<close> are its two readings of \<^verbatim>\<open>Date.now()\<close>,
  \<open>sent\<close> says whether \<^verbatim>\<open>await sendChatMessage(...)\<close> returned (otherwise it threw).
  (\<^verbatim>\<open>Date.now()\<close> is a whole number of milliseconds far below \<^verbatim>\<open>1e21\<close>, which prints as
  its decimal digits: with numbers as \<open>nat\<close>, \<open>number_text\<close> is \<open>string_of_nat\<close>.)
\<close>

definition handleSendMessage :: "('n \<Rightarrow> string) \<Rightarrow> 'n \<Rightarrow> 'n \<Rightarrow> string \<Rightarrow> bool \<Rightarrow> 'n Chat
    \<Rightarrow> 'n Chat \<times> effect list" where
  "handleSendMessage number_text now now' user sent s =
     (if trim (inputText s) = [] \<or> \<not> roomRef_current s \<or> \<not> chat_isConnected s then (s, [])
      else
        let s' = s\<lparr>chat_messages := chat_messages s @
                    [\<lparr>chat_id = number_text now @ ''-'' @ user,
                      chat_text = inputText s,
                      chat_sender = user,
                      chat_timestamp = now',
                      isAgent = False\<rparr>]\<rparr>
        in if sent then (s'\<lparr>inputText := []\<rparr>, [SendChatMessage (inputText s)])
           else (s'\<lparr>chat_error := Some ''Failed to send message''\<rparr>,
                 [SendChatMessage (inputText s)]))"


section \<open>The conversation orchestrator\<close>

text \<open>
  Modelled from the spec: the Conversation Orchestrator with its Memory Adapter and its
  LLM Adapter. They are the Python backend behind \<^verbatim>\<open>http://localhost:8000\<close>, which is not
  among the source files; the routes and the page above are its callers. The definitions
  follow sections 3, 4.2, 4.3 and 4.4 of the specification.
\<close>

text \<open>Modelled from the spec: Agent, \<^verbatim>\<open>{ name, role, description, system_prompt }\<close>.\<close>

record agent =
  agent_name :: string
  agent_role :: string
  agent_description :: string
  system_prompt :: string

text \<open>Modelled from the spec: one stored turn of a conversation, keyed by the user.\<close>

record turn =
  turn_user :: string
  turn_role :: string
  turn_text :: string

datatype provider_error = ProviderError

text \<open>Modelled from the spec: the active-agent selection per user and the local memory store.\<close>

record relay =
  active_agent :: "(string \<times> string) list"
  memory :: "turn list"

text \<open>Modelled from the spec: \<^verbatim>\<open>get_agent(name) -> Agent or NotFound\<close>.\<close>

definition get_agent :: "agent list \<Rightarrow> string \<Rightarrow> agent option" where
  "get_agent registry name = find (\<lambda>a. agent_name a = name) registry"

text \<open>Modelled from the spec: \<^verbatim>\<open>append(user_id, role, text)\<close> on the local store.\<close>

definition append_turn :: "string \<Rightarrow> string \<Rightarrow> string \<Rightarrow> turn list \<Rightarrow> turn list" where
  "append_turn user_id role said stored =
     stored @ [\<lparr>turn_user = user_id, turn_role = role, turn_text = said\<rparr>]"

text \<open>Modelled from the spec: \<^verbatim>\<open>recent(user_id, limit)\<close>, the user's own turns, most recent first.\<close>

definition recent :: "string \<Rightarrow> nat \<Rightarrow> turn list \<Rightarrow> turn list" where
  "recent user_id limit stored = take limit (rev (filter (\<lambda>t. turn_user t = user_id) stored))"

text \<open>
  Modelled from the spec: stage 1 of the orchestrator, the active agent of the user, or the
  configured fallback agent when none is set or the name is unknown.
\<close>

definition resolve_agent :: "agent list \<Rightarrow> agent \<Rightarrow> string \<Rightarrow> relay \<Rightarrow> agent" where
  "resolve_agent registry fallback user_id st =
     (case map_of (active_agent st) user_id of
        None \<Rightarrow> fallback
      | Some name \<Rightarrow> (case get_agent registry name of None \<Rightarrow> fallback | Some a \<Rightarrow> a))"

text \<open>
  Modelled from the spec: the orchestrator for one inbound message, stages 1 to 5.
  \<open>complete\<close> is the LLM adapter, \<open>apology\<close> the static apology text, \<open>limit\<close> the bound
  on the turns fetched. The result is the reply with its sender and the relay's new state.
\<close>

definition orchestrate :: "agent list \<Rightarrow> agent \<Rightarrow> nat \<Rightarrow> string
    \<Rightarrow> (string \<Rightarrow> turn list \<Rightarrow> string \<Rightarrow> provider_error + string)
    \<Rightarrow> string \<Rightarrow> string \<Rightarrow> relay \<Rightarrow> (string \<times> string) \<times> relay" where
  "orchestrate registry fallback limit apology complete user_id message st =
     (let active = resolve_agent registry fallback user_id st;
          history = recent user_id limit (memory st)
      in case complete (system_prompt active) history message of
           Inr reply \<Rightarrow>
             ((reply, agent_name active),
              st\<lparr>memory := append_turn user_id ''assistant'' reply
                              (append_turn user_id ''user'' message (memory st))\<rparr>)
         | Inl failure \<Rightarrow> ((apology, ''system''), st))"

text \<open>Modelled from the spec: an LLM adapter whose provider is down.\<close>

definition provider_down :: "string \<Rightarrow> turn list \<Rightarrow> string \<Rightarrow> provider_error + string" where
  "provider_down prompt history message = Inl ProviderError"


section \<open>Facts about the building blocks\<close>

lemma checked_json_cases:
  "checked_json trace (Rejected e) = Inl e"
  "\<not> ok r \<Longrightarrow> checked_json trace (Resolved r) = Inl (JsError (''Error: '' @ string_of_nat (status r)) trace)"
  "ok r \<Longrightarrow> checked_json trace (Resolved r) = json r"
  by (simp_all add: checked_json_def)

lemma forward_cases:
  "forward trace (Inl e) fetched = Inl e"
  "forward trace (Inr body) fetched = checked_json trace fetched"
  by (simp_all add: forward_def)

lemma client_data_served:
  "client_data (served r) = (if is_2xx (res_status r) then Some (res_body r) else None)"
  by (simp add: client_data_def served_def)

lemma client_data_Rejected: "client_data (Rejected e) = None"
  by (simp add: client_data_def)

lemma proxy_failure_not_served:
  assumes "forward trace request_json fetched = Inl err"
  shows "client_data (served (POST_agent_response trace request_json fetched)) = None"
    and "client_data (served (POST_handoff trace request_json fetched)) = None"
  using assms
  by (simp_all add: client_data_served POST_agent_response_def POST_handoff_def
        NextResponse_json_def is_2xx_def)

lemma forward_failure:
  "forward trace request_json fetched = Inl err \<longleftrightarrow>
     request_json = Inl err
     \<or> (\<exists>body. request_json = Inr body \<and>
          (fetched = Rejected err
           \<or> (\<exists>r. fetched = Resolved r \<and> \<not> ok r
                 \<and> err = JsError (''Error: '' @ string_of_nat (status r)) trace)
           \<or> (\<exists>r. fetched = Resolved r \<and> ok r \<and> json r = Inl err)))"
  by (cases request_json; cases fetched) (auto simp: forward_def checked_json_def)

lemma getItem_setItem: "getItem (setItem entries k v) k = Some v"
  by (induction entries) (auto simp: getItem_def)

lemma handleAgentChange_settled_fields:
  assumes "handleAgentChange_settled now date fetched s = Inr s'"
  shows "currentAgent s' = currentAgent s"
    and "websocket s' = websocket s"
    and "page_username s' = page_username s"
  using assms
  by (auto simp: handleAgentChange_settled_def split: option.splits if_splits)

lemma handleAgentChange_settled_failed:
  assumes "client_data fetched = None"
  shows "\<exists>s'. handleAgentChange_settled now date fetched s = Inr s'"
  using assms by (simp add: handleAgentChange_settled_def)

lemma handleAgentChange_fields:
  "currentAgent (fst (handleAgentChange now date agentName s)) = agentName"
  "websocket (fst (handleAgentChange now date agentName s)) = websocket s"
  "page_username (fst (handleAgentChange now date agentName s)) = page_username s"
  "localStorage (fst (handleAgentChange now date agentName s))
     = setItem (localStorage s) ''selected_agent'' agentName"
  by (simp_all add: handleAgentChange_def)

lemma trim_empty_iff: "trim s = [] \<longleftrightarrow> (\<forall>c\<in>set s. is_white_space c)"
proof -
  have "trim s = [] \<longleftrightarrow> (\<forall>c\<in>set (dropWhile is_white_space s). is_white_space c)"
    by (simp add: trim_def dropWhile_eq_Nil_conv)
  also have "\<dots> \<longleftrightarrow> dropWhile is_white_space s = []"
  proof
    assume all: "\<forall>c\<in>set (dropWhile is_white_space s). is_white_space c"
    show "dropWhile is_white_space s = []"
    proof (rule ccontr)
      assume "dropWhile is_white_space s \<noteq> []"
      then have "\<not> is_white_space (hd (dropWhile is_white_space s))"
          and "hd (dropWhile is_white_space s) \<in> set (dropWhile is_white_space s)"
        by (simp_all add: hd_dropWhile)
      with all show False by blast
    qed
  next
    assume none: "dropWhile is_white_space s = []"
    show "\<forall>c\<in>set (dropWhile is_white_space s). is_white_space c"
      unfolding none by simp
  qed
  also have "\<dots> \<longleftrightarrow> (\<forall>c\<in>set s. is_white_space c)"
    by (simp add: dropWhile_eq_Nil_conv)
  finally show ?thesis .
qed

lemma get_prop_string_is_object: "get_prop data k = JStr v \<Longrightarrow> \<exists>fields. data = JObj fields"
  by (cases data) simp_all







section \<open>Properties of the API routes\<close>

text \<open>
  C1. The agents listing (both copies of \<^verbatim>\<open>GET /api/agents\<close>): when the registry call
  resolves to an ok response, the route returns the data it fetched; when the call
  rejects, the response is not ok, or its body does not parse, the route returns exactly
  its built-in fallback list, the three agents support, sales and advisor in one copy and
  the five agents general, technical, creative, fact-checker and tutor in the other. In
  every case the route answers with status 200.
\<close>

theorem agents_listing_live_or_fallback:
  "(ok live \<and> json live = Inr data \<longrightarrow>
      GET_part_000 trace (Resolved live) = \<lparr>res_status = 200, res_body = data\<rparr> \<and>
      GET_agents_route trace (Resolved live) = \<lparr>res_status = 200, res_body = data\<rparr>)
   \<and> (\<not> ok down \<or> json down = Inl e \<longrightarrow>
      GET_part_000 trace (Resolved down) = \<lparr>res_status = 200, res_body = fallback_agents_part_000\<rparr> \<and>
      GET_agents_route trace (Resolved down) = \<lparr>res_status = 200, res_body = fallback_agents_route\<rparr>)
   \<and> GET_part_000 trace (Rejected e) = \<lparr>res_status = 200, res_body = fallback_agents_part_000\<rparr>
   \<and> GET_agents_route trace (Rejected e) = \<lparr>res_status = 200, res_body = fallback_agents_route\<rparr>
   \<and> is_2xx (res_status (GET_part_000 trace fetched))
   \<and> is_2xx (res_status (GET_agents_route trace fetched))
   \<and> agent_names fallback_agents_part_000 =
         [JStr ''support-agent'', JStr ''sales-agent'', JStr ''advisor-agent'']
   \<and> agent_names fallback_agents_route =
         [JStr ''general-assistant'', JStr ''technical-assistant'', JStr ''creative-writer'',
          JStr ''fact-checker'', JStr ''tutor'']"
proof -
  have live: "ok live \<and> json live = Inr data \<longrightarrow>
      GET_part_000 trace (Resolved live) = \<lparr>res_status = 200, res_body = data\<rparr> \<and>
      GET_agents_route trace (Resolved live) = \<lparr>res_status = 200, res_body = data\<rparr>"
    by (simp add: GET_part_000_def GET_agents_route_def checked_json_cases NextResponse_json_def)
  have down: "\<not> ok down \<or> json down = Inl e \<longrightarrow>
      GET_part_000 trace (Resolved down) = \<lparr>res_status = 200, res_body = fallback_agents_part_000\<rparr> \<and>
      GET_agents_route trace (Resolved down) = \<lparr>res_status = 200, res_body = fallback_agents_route\<rparr>"
    by (cases "ok down")
       (auto simp: GET_part_000_def GET_agents_route_def checked_json_cases NextResponse_json_def)
  have rejected: "GET_part_000 trace (Rejected e) = \<lparr>res_status = 200, res_body = fallback_agents_part_000\<rparr>"
      "GET_agents_route trace (Rejected e) = \<lparr>res_status = 200, res_body = fallback_agents_route\<rparr>"
    by (simp_all add: GET_part_000_def GET_agents_route_def checked_json_cases NextResponse_json_def)
  have always: "is_2xx (res_status (GET_part_000 trace fetched))"
      "is_2xx (res_status (GET_agents_route trace fetched))"
    by (simp_all add: GET_part_000_def GET_agents_route_def NextResponse_json_def is_2xx_def
          split: sum.split)
  have names: "agent_names fallback_agents_part_000 =
         [JStr ''support-agent'', JStr ''sales-agent'', JStr ''advisor-agent'']"
     "agent_names fallback_agents_route =
         [JStr ''general-assistant'', JStr ''technical-assistant'', JStr ''creative-writer'',
          JStr ''fact-checker'', JStr ''tutor'']"
    by (simp_all add: agent_names_def fallback_agents_part_000_def fallback_agents_route_def)
  from live down rejected always names show ?thesis by blast
qed

theorem agents_listing_live_or_fallback_witness:
  "GET_part_000 [] (Resolved \<lparr>ok = True, status = 200,
       json = Inr (JObj [(''agents'', JArr [JObj [(''name'', JStr ''tutor'')]])])\<rparr>)
     = \<lparr>res_status = 200, res_body = JObj [(''agents'', JArr [JObj [(''name'', JStr ''tutor'')]])]\<rparr>
   \<and> GET_agents_route [] (Resolved \<lparr>ok = False, status = 503, json = Inr JNull\<rparr>)
     = \<lparr>res_status = 200, res_body = fallback_agents_route\<rparr>"
  using agents_listing_live_or_fallback
    [of "\<lparr>ok = True, status = 200,
          json = Inr (JObj [(''agents'', JArr [JObj [(''name'', JStr ''tutor'')]])])\<rparr>"
        "JObj [(''agents'', JArr [JObj [(''name'', JStr ''tutor'')]])]"
        "[]"
        "\<lparr>ok = False, status = 503, json = Inr JNull\<rparr>"]
  by simp

text \<open>
  C2. The proxy \<^verbatim>\<open>POST /api/agent-response\<close>: when the backend call resolves to an ok
  response, the route returns the body the backend sent (\<^verbatim>\<open>{response, agent}\<close>) with
  status 200; when the call rejects, the response is not ok, its body does not parse, or
  the request's own body cannot be read, the route returns the fixed apology under
  \<^verbatim>\<open>response\<close>, with agent \<^verbatim>\<open>system\<close> and status 500, which is not a 2xx status.
\<close>

theorem agent_response_proxy:
  "(ok up \<and> json up = Inr data \<longrightarrow>
      POST_agent_response trace (Inr body) (Resolved up) = \<lparr>res_status = 200, res_body = data\<rparr>)
   \<and> (\<not> ok down \<or> json down = Inl e \<longrightarrow>
      POST_agent_response trace (Inr body) (Resolved down) =
        \<lparr>res_status = 500,
         res_body = JObj [(''response'', JStr apology_agent_response), (''agent'', JStr ''system'')]\<rparr>)
   \<and> POST_agent_response trace (Inr body) (Rejected e) =
        \<lparr>res_status = 500,
         res_body = JObj [(''response'', JStr apology_agent_response), (''agent'', JStr ''system'')]\<rparr>
   \<and> POST_agent_response trace (Inl e) fetched =
        \<lparr>res_status = 500,
         res_body = JObj [(''response'', JStr apology_agent_response), (''agent'', JStr ''system'')]\<rparr>
   \<and> \<not> is_2xx 500"
proof -
  have up: "ok up \<and> json up = Inr data \<longrightarrow>
      POST_agent_response trace (Inr body) (Resolved up) = \<lparr>res_status = 200, res_body = data\<rparr>"
    by (simp add: POST_agent_response_def forward_cases checked_json_cases NextResponse_json_def)
  have down: "\<not> ok down \<or> json down = Inl e \<longrightarrow>
      POST_agent_response trace (Inr body) (Resolved down) =
        \<lparr>res_status = 500,
         res_body = JObj [(''response'', JStr apology_agent_response), (''agent'', JStr ''system'')]\<rparr>"
    by (cases "ok down")
       (auto simp: POST_agent_response_def forward_cases checked_json_cases NextResponse_json_def)
  have rejected: "POST_agent_response trace (Inr body) (Rejected e) =
        \<lparr>res_status = 500,
         res_body = JObj [(''response'', JStr apology_agent_response), (''agent'', JStr ''system'')]\<rparr>"
    by (simp add: POST_agent_response_def forward_cases checked_json_cases NextResponse_json_def)
  have unread: "POST_agent_response trace (Inl e) fetched =
        \<lparr>res_status = 500,
         res_body = JObj [(''response'', JStr apology_agent_response), (''agent'', JStr ''system'')]\<rparr>"
    by (simp add: POST_agent_response_def forward_cases NextResponse_json_def)
  have "\<not> is_2xx 500" by (simp add: is_2xx_def)
  with up down rejected unread show ?thesis by blast
qed

theorem agent_response_proxy_witness:
  "POST_agent_response []
     (Inr (JObj [(''username'', JStr ''alice''), (''message'', JStr ''hi''),
                 (''agent'', JStr ''support-agent'')]))
     (Resolved \<lparr>ok = True, status = 200,
        json = Inr (JObj [(''response'', JStr ''Hello!''), (''agent'', JStr ''support-agent'')])\<rparr>)
     = \<lparr>res_status = 200,
        res_body = JObj [(''response'', JStr ''Hello!''), (''agent'', JStr ''support-agent'')]\<rparr>
   \<and> POST_agent_response []
     (Inr (JObj [(''username'', JStr ''alice''), (''message'', JStr ''hi''),
                 (''agent'', JStr ''support-agent'')]))
     (Resolved \<lparr>ok = False, status = 502, json = Inl (JsOther ''Bad Gateway'')\<rparr>)
     = \<lparr>res_status = 500,
        res_body = JObj [(''response'', JStr apology_agent_response), (''agent'', JStr ''system'')]\<rparr>"
  using agent_response_proxy
    [of "\<lparr>ok = True, status = 200,
          json = Inr (JObj [(''response'', JStr ''Hello!''), (''agent'', JStr ''support-agent'')])\<rparr>"
        "JObj [(''response'', JStr ''Hello!''), (''agent'', JStr ''support-agent'')]"
        "[]"
        "JObj [(''username'', JStr ''alice''), (''message'', JStr ''hi''),
               (''agent'', JStr ''support-agent'')]"
        "\<lparr>ok = False, status = 502, json = Inl (JsOther ''Bad Gateway'')\<rparr>"]
  by simp

text \<open>
  C7, as the specification states it, fails: when the backend call of the agent-response
  proxy rejects, the answer has status 500 and a body with the fields \<^verbatim>\<open>response\<close> and
  \<^verbatim>\<open>agent\<close>; it is neither a 2xx answer nor a body with \<^verbatim>\<open>error\<close> and \<^verbatim>\<open>details\<close>.
\<close>

theorem failure_payload_counterexample:
  "\<not> (is_2xx (res_status (POST_agent_response [] (Inr (JObj [])) (Rejected (JsOther ''fetch failed''))))
      \<or> (get_prop (res_body (POST_agent_response [] (Inr (JObj [])) (Rejected (JsOther ''fetch failed''))))
             ''error'' \<noteq> JUndefined
          \<and> get_prop (res_body (POST_agent_response [] (Inr (JObj [])) (Rejected (JsOther ''fetch failed''))))
             ''details'' \<noteq> JUndefined))"
  by (simp add: POST_agent_response_def forward_cases checked_json_cases NextResponse_json_def
        is_2xx_def)

text \<open>
  C7, amended. On a failure (the request body cannot be read, the backend call rejects, its
  response is not ok, or the response body does not parse) each route answers with its own
  fixed shape: the agents listing with status 200 and its built-in list; create-room with
  status 500 and \<^verbatim>\<open>{error, details}\<close>; agent-response with status 500 and the apology
  under \<^verbatim>\<open>{response, agent}\<close>; handoff with status 500 and
  \<^verbatim>\<open>{success, message, error}\<close>. What comes from the failure is only the text of the
  caught error: its message, or \<^verbatim>\<open>Error: <status>\<close> for a response that is not ok; the
  stack of an \<^verbatim>\<open>Error\<close> is not part of it.
\<close>

theorem failure_payloads:
  assumes "forward trace request_json fetched = Inl err"
    and "checked_json trace registry = Inl err'"
  shows "GET_part_000 trace registry = \<lparr>res_status = 200, res_body = fallback_agents_part_000\<rparr>
       \<and> GET_agents_route trace registry = \<lparr>res_status = 200, res_body = fallback_agents_route\<rparr>
       \<and> POST_create_room trace request_json fetched =
           \<lparr>res_status = 500,
            res_body = JObj [(''error'', JStr ''Failed to create room. Please try again.''),
                             (''details'', JStr (error_text err))]\<rparr>
       \<and> POST_agent_response trace request_json fetched =
           \<lparr>res_status = 500,
            res_body = JObj [(''response'', JStr apology_agent_response),
                             (''agent'', JStr ''system'')]\<rparr>
       \<and> POST_handoff trace request_json fetched =
           \<lparr>res_status = 500,
            res_body = JObj [(''success'', JBool False),
                             (''message'', JStr trouble_switching),
                             (''error'', JStr (error_text err))]\<rparr>
       \<and> (request_json = Inl err \<or> fetched = Rejected err
            \<or> (\<exists>r. fetched = Resolved r \<and> ok r \<and> json r = Inl err)
            \<or> (\<exists>r. fetched = Resolved r \<and> \<not> ok r
                  \<and> error_text err = ''Error: '' @ string_of_nat (status r)))
       \<and> error_text (JsError message stack) = message"
proof -
  have listing: "GET_part_000 trace registry = \<lparr>res_status = 200, res_body = fallback_agents_part_000\<rparr>"
      "GET_agents_route trace registry = \<lparr>res_status = 200, res_body = fallback_agents_route\<rparr>"
    using assms(2) by (simp_all add: GET_part_000_def GET_agents_route_def NextResponse_json_def)
  have room: "POST_create_room trace request_json fetched =
           \<lparr>res_status = 500,
            res_body = JObj [(''error'', JStr ''Failed to create room. Please try again.''),
                             (''details'', JStr (error_text err))]\<rparr>"
    using assms(1) by (simp add: POST_create_room_def NextResponse_json_def)
  have reply: "POST_agent_response trace request_json fetched =
           \<lparr>res_status = 500,
            res_body = JObj [(''response'', JStr apology_agent_response),
                             (''agent'', JStr ''system'')]\<rparr>"
    using assms(1) by (simp add: POST_agent_response_def NextResponse_json_def)
  have handoff: "POST_handoff trace request_json fetched =
           \<lparr>res_status = 500,
            res_body = JObj [(''success'', JBool False),
                             (''message'', JStr trouble_switching),
                             (''error'', JStr (error_text err))]\<rparr>"
    using assms(1) by (simp add: POST_handoff_def NextResponse_json_def)
  have origin: "request_json = Inl err \<or> fetched = Rejected err
            \<or> (\<exists>r. fetched = Resolved r \<and> ok r \<and> json r = Inl err)
            \<or> (\<exists>r. fetched = Resolved r \<and> \<not> ok r
                  \<and> error_text err = ''Error: '' @ string_of_nat (status r))"
    using assms(1) unfolding forward_failure by auto
  from listing room reply handoff origin show ?thesis by simp
qed

theorem failure_payloads_witness:
  "POST_handoff ''at POST'' (Inr (JObj [(''to_agent'', JStr ''nobody'')]))
       (Resolved \<lparr>ok = False, status = 404, json = Inr JNull\<rparr>) =
     \<lparr>res_status = 500,
      res_body = JObj [(''success'', JBool False),
                       (''message'', JStr trouble_switching),
                       (''error'', JStr ''Error: 404'')]\<rparr>
   \<and> POST_create_room ''at POST'' (Inr (JObj [(''to_agent'', JStr ''nobody'')]))
       (Resolved \<lparr>ok = False, status = 404, json = Inr JNull\<rparr>) =
     \<lparr>res_status = 500,
      res_body = JObj [(''error'', JStr ''Failed to create room. Please try again.''),
                       (''details'', JStr ''Error: 404'')]\<rparr>
   \<and> GET_part_000 ''at POST'' (Rejected (JsError ''fetch failed'' ''at connect''))
       = \<lparr>res_status = 200, res_body = fallback_agents_part_000\<rparr>"
proof -
  have failed: "forward ''at POST'' (Inr (JObj [(''to_agent'', JStr ''nobody'')]))
       (Resolved \<lparr>ok = False, status = 404, json = Inr JNull\<rparr>)
     = Inl (JsError ''Error: 404'' ''at POST'')"
    by (simp add: forward_cases checked_json_cases string_of_nat.simps)
  have down: "checked_json ''at POST'' (Rejected (JsError ''fetch failed'' ''at connect''))
     = Inl (JsError ''fetch failed'' ''at connect'')"
    by (simp add: checked_json_cases)
  from failure_payloads [OF failed down] show ?thesis by simp
qed


section \<open>Properties of the chat clients\<close>

text \<open>
  C3. When the LLM adapter fails, the orchestrator (as the specification describes it)
  replies with the static apology under the sender \<^verbatim>\<open>system\<close> and leaves the relay's
  state, its memory included, as it was. On the request/response path of the sources, a
  failed backend call makes the proxy answer with its apology payload and status 500, and
  the page then shows its fixed apology text under the sender \<^verbatim>\<open>system\<close>; the same
  when the page's own call rejects.
\<close>

theorem llm_failure_apology:
  "(complete (system_prompt (resolve_agent registry fallback user_id st))
       (recent user_id limit (memory st)) message = Inl failure \<longrightarrow>
      orchestrate registry fallback limit apology complete user_id message st
        = ((apology, ''system''), st))
   \<and> (forward trace request_json fetched = Inl err \<longrightarrow>
        POST_agent_response trace request_json fetched =
          \<lparr>res_status = 500,
           res_body = JObj [(''response'', JStr apology_agent_response),
                            (''agent'', JStr ''system'')]\<rparr>
        \<and> sendMessage_settled now date agent
            (served (POST_agent_response trace request_json fetched)) s =
          Inr (s\<lparr>messages := messages s @
                 [\<lparr>msg_id = string_of_nat now, content = JStr sorry_message,
                   sender = JStr ''system'', timestamp = date, username = JUndefined,
                   isSystem = None, isUser = None\<rparr>]\<rparr>))
   \<and> sendMessage_settled now date agent (Rejected e) s =
          Inr (s\<lparr>messages := messages s @
                 [\<lparr>msg_id = string_of_nat now, content = JStr sorry_message,
                   sender = JStr ''system'', timestamp = date, username = JUndefined,
                   isSystem = None, isUser = None\<rparr>]\<rparr>)"
proof -
  have orchestrator: "complete (system_prompt (resolve_agent registry fallback user_id st))
       (recent user_id limit (memory st)) message = Inl failure \<longrightarrow>
      orchestrate registry fallback limit apology complete user_id message st
        = ((apology, ''system''), st)"
    by (simp add: orchestrate_def Let_def)
  have proxy: "forward trace request_json fetched = Inl err \<longrightarrow>
        POST_agent_response trace request_json fetched =
          \<lparr>res_status = 500,
           res_body = JObj [(''response'', JStr apology_agent_response),
                            (''agent'', JStr ''system'')]\<rparr>"
    by (simp add: POST_agent_response_def NextResponse_json_def)
  have page: "forward trace request_json fetched = Inl err \<longrightarrow>
        sendMessage_settled now date agent
            (served (POST_agent_response trace request_json fetched)) s =
          Inr (s\<lparr>messages := messages s @
                 [\<lparr>msg_id = string_of_nat now, content = JStr sorry_message,
                   sender = JStr ''system'', timestamp = date, username = JUndefined,
                   isSystem = None, isUser = None\<rparr>]\<rparr>)"
    by (simp add: sendMessage_settled_def proxy_failure_not_served)
  have direct: "sendMessage_settled now date agent (Rejected e) s =
          Inr (s\<lparr>messages := messages s @
                 [\<lparr>msg_id = string_of_nat now, content = JStr sorry_message,
                   sender = JStr ''system'', timestamp = date, username = JUndefined,
                   isSystem = None, isUser = None\<rparr>]\<rparr>)"
    by (simp add: sendMessage_settled_def client_data_Rejected)
  from orchestrator proxy page direct show ?thesis by blast
qed

theorem llm_failure_apology_witness:
  "orchestrate [] \<lparr>agent_name = ''support-agent'', agent_role = ''Customer Support'',
        agent_description = ''Helps with technical issues'', system_prompt = ''You help.''\<rparr>
      5 ''Sorry.'' provider_down ''alice'' ''hi''
      \<lparr>active_agent = [], memory = [\<lparr>turn_user = ''alice'', turn_role = ''user'', turn_text = ''hello''\<rparr>]\<rparr>
    = ((''Sorry.'', ''system''),
       \<lparr>active_agent = [], memory = [\<lparr>turn_user = ''alice'', turn_role = ''user'', turn_text = ''hello''\<rparr>]\<rparr>)
   \<and> map content (messages (kept (ChatPage_initial [])
        (sendMessage_settled 7 7 ''support-agent''
           (served (POST_agent_response [] (Inr (JObj [(''username'', JStr ''alice''), (''message'', JStr ''hi'')]))
              (Rejected (JsOther ''fetch failed''))))
           (ChatPage_initial []))))
      = [JStr sorry_message]
   \<and> map sender (messages (kept (ChatPage_initial [])
        (sendMessage_settled 7 7 ''support-agent''
           (served (POST_agent_response [] (Inr (JObj [(''username'', JStr ''alice''), (''message'', JStr ''hi'')]))
              (Rejected (JsOther ''fetch failed''))))
           (ChatPage_initial []))))
      = [JStr ''system'']"
proof -
  have down: "provider_down
       (system_prompt (resolve_agent [] \<lparr>agent_name = ''support-agent'', agent_role = ''Customer Support'',
        agent_description = ''Helps with technical issues'', system_prompt = ''You help.''\<rparr> ''alice''
          \<lparr>active_agent = [], memory = [\<lparr>turn_user = ''alice'', turn_role = ''user'', turn_text = ''hello''\<rparr>]\<rparr>))
       (recent ''alice'' 5 (memory \<lparr>active_agent = [], memory = [\<lparr>turn_user = ''alice'', turn_role = ''user'', turn_text = ''hello''\<rparr>]\<rparr>))
       ''hi'' = Inl ProviderError"
    by (simp add: provider_down_def)
  have failed: "forward [] (Inr (JObj [(''username'', JStr ''alice''), (''message'', JStr ''hi'')]))
       (Rejected (JsOther ''fetch failed'')) = Inl (JsOther ''fetch failed'')"
    by (simp add: forward_cases checked_json_cases)
  note at_input = llm_failure_apology
    [of provider_down "[]" "\<lparr>agent_name = ''support-agent'', agent_role = ''Customer Support'',
        agent_description = ''Helps with technical issues'', system_prompt = ''You help.''\<rparr>"
      "''alice''"
      "\<lparr>active_agent = [], memory = [\<lparr>turn_user = ''alice'', turn_role = ''user'', turn_text = ''hello''\<rparr>]\<rparr>"
      5 "''hi''" ProviderError "''Sorry.''"
      "[]" "Inr (JObj [(''username'', JStr ''alice''), (''message'', JStr ''hi'')])"
      "Rejected (JsOther ''fetch failed'')" "JsOther ''fetch failed''"
      7 7 "''support-agent''" "ChatPage_initial []"]
  from at_input down
  have relay: "orchestrate [] \<lparr>agent_name = ''support-agent'', agent_role = ''Customer Support'',
        agent_description = ''Helps with technical issues'', system_prompt = ''You help.''\<rparr>
      5 ''Sorry.'' provider_down ''alice'' ''hi''
      \<lparr>active_agent = [], memory = [\<lparr>turn_user = ''alice'', turn_role = ''user'', turn_text = ''hello''\<rparr>]\<rparr>
    = ((''Sorry.'', ''system''),
       \<lparr>active_agent = [], memory = [\<lparr>turn_user = ''alice'', turn_role = ''user'', turn_text = ''hello''\<rparr>]\<rparr>)"
    by blast
  from at_input failed
  have page: "sendMessage_settled 7 7 ''support-agent''
           (served (POST_agent_response [] (Inr (JObj [(''username'', JStr ''alice''), (''message'', JStr ''hi'')]))
              (Rejected (JsOther ''fetch failed''))))
           (ChatPage_initial [])
     = Inr (ChatPage_initial [] \<lparr>messages := messages (ChatPage_initial []) @
                 [\<lparr>msg_id = string_of_nat 7, content = JStr sorry_message,
                   sender = JStr ''system'', timestamp = 7, username = JUndefined,
                   isSystem = None, isUser = None\<rparr>]\<rparr>)"
    by blast
  from relay page show ?thesis by (simp add: ChatPage_initial_def)
qed

text \<open>
  C4, as the specification states it, fails: the page starts on the support agent, the
  user switches to the sales agent and the handoff call fails (the route answers with
  status 500); the page is still mounted and its active agent is the sales agent, not the
  support agent.
\<close>

theorem agent_switch_counterexample:
  "currentAgent (ChatPage_initial []) = ''support-agent''
   \<and> res_status (POST_handoff [] (Inr (JObj [(''to_agent'', JStr ''sales-agent'')]))
         (Rejected (JsOther ''fetch failed''))) = 500
   \<and> page_run (ChatPage_initial [])
        [AgentChange 1 1 ''sales-agent'',
         HandoffSettled 2 2
           (served (POST_handoff [] (Inr (JObj [(''to_agent'', JStr ''sales-agent'')]))
              (Rejected (JsOther ''fetch failed''))))]
      = Inr (fst (handleAgentChange 1 1 ''sales-agent'' (ChatPage_initial [])))
   \<and> currentAgent (fst (handleAgentChange 1 1 ''sales-agent'' (ChatPage_initial [])))
      \<noteq> ''support-agent''"
  by (simp add: ChatPage_initial_def getItem_def handleAgentChange_def
        handleAgentChange_settled_def client_data_served POST_handoff_def forward_cases
        checked_json_cases NextResponse_json_def is_2xx_def)

text \<open>
  C4, amended. A switch to an agent makes it the active agent of the page at once, in its
  state and in \<^verbatim>\<open>localStorage\<close>; the page appends its notice of the switch under the
  sender \<^verbatim>\<open>system\<close> and calls the handoff route with the user, \<^verbatim>\<open>current-agent\<close> as the
  agent left, the new agent as \<^verbatim>\<open>to_agent\<close> and the reason. However the handoff call
  ends, a page that is still mounted has the new agent as its active agent, and the next
  message sent over the open WebSocket names the new agent in its frame; so after a
  failed handoff call (the page is then still mounted) the active agent is the new one,
  not the previous one. The handoff route reports the failure to its caller, with status
  500 and a body \<^verbatim>\<open>{success: false, message, error}\<close>.
\<close>

theorem agent_switch:
  "currentAgent (fst (handleAgentChange now date agentName s)) = agentName
   \<and> getItem (localStorage (fst (handleAgentChange now date agentName s))) ''selected_agent''
       = Some agentName
   \<and> messages (fst (handleAgentChange now date agentName s))
       = messages s @
           [\<lparr>msg_id = string_of_nat now,
             content = JStr (''Switching to '' @ replace agentName ''-agent'' [] @ '' agent...''),
             sender = JStr ''system'', timestamp = date, username = JUndefined,
             isSystem = None, isUser = None\<rparr>]
   \<and> snd (handleAgentChange now date agentName s)
       = [Fetch ''/api/handoff''
            (JObj [(''username'', JStr (page_username s)),
                   (''from_agent'', JStr ''current-agent''),
                   (''to_agent'', JStr agentName),
                   (''reason'', JStr ''User requested agent change'')])]
   \<and> (handleAgentChange_settled now' date' fetched (fst (handleAgentChange now date agentName s))
         = Inr s' \<longrightarrow>
        currentAgent s' = agentName
        \<and> (websocket s' = Some OPEN \<and> trim line \<noteq> [] \<longrightarrow>
             snd (sendMessage line s')
               = [WsSend (JObj [(''message'', JStr line), (''agent'', JStr agentName)])]))
   \<and> (forward trace request_json backend = Inl err \<longrightarrow>
        POST_handoff trace request_json backend =
          \<lparr>res_status = 500,
           res_body = JObj [(''success'', JBool False),
                            (''message'', JStr trouble_switching),
                            (''error'', JStr (error_text err))]\<rparr>
        \<and> (\<exists>s'. handleAgentChange_settled now' date'
                   (served (POST_handoff trace request_json backend))
                   (fst (handleAgentChange now date agentName s)) = Inr s'
                 \<and> currentAgent s' = agentName))
   \<and> (\<exists>s'. handleAgentChange_settled now' date' (Rejected e)
              (fst (handleAgentChange now date agentName s)) = Inr s'
            \<and> currentAgent s' = agentName)"
proof -
  let ?switched = "fst (handleAgentChange now date agentName s)"
  have switched: "currentAgent ?switched = agentName"
      "getItem (localStorage ?switched) ''selected_agent'' = Some agentName"
    by (simp_all add: handleAgentChange_fields getItem_setItem)
  have notice: "messages ?switched
       = messages s @
           [\<lparr>msg_id = string_of_nat now,
             content = JStr (''Switching to '' @ replace agentName ''-agent'' [] @ '' agent...''),
             sender = JStr ''system'', timestamp = date, username = JUndefined,
             isSystem = None, isUser = None\<rparr>]"
    by (simp add: handleAgentChange_def)
  have called: "snd (handleAgentChange now date agentName s)
       = [Fetch ''/api/handoff''
            (JObj [(''username'', JStr (page_username s)),
                   (''from_agent'', JStr ''current-agent''),
                   (''to_agent'', JStr agentName),
                   (''reason'', JStr ''User requested agent change'')])]"
    by (simp add: handleAgentChange_def)
  have after: "currentAgent s' = agentName
        \<and> (websocket s' = Some OPEN \<and> trim line \<noteq> [] \<longrightarrow>
             snd (sendMessage line s')
               = [WsSend (JObj [(''message'', JStr line), (''agent'', JStr agentName)])])"
    if settled: "handleAgentChange_settled now' date' fetched ?switched = Inr s'"
  proof -
    have "currentAgent s' = agentName"
      using handleAgentChange_settled_fields(1) [OF settled] switched(1) by simp
    then show ?thesis by (simp add: sendMessage_def)
  qed
  have stays: "\<exists>s'. handleAgentChange_settled now' date' answer ?switched = Inr s'
                 \<and> currentAgent s' = agentName"
    if "client_data answer = None" for answer
  proof -
    from handleAgentChange_settled_failed [OF that]
    obtain s' where settled: "handleAgentChange_settled now' date' answer ?switched = Inr s'"
      by blast
    then have "currentAgent s' = agentName"
      using handleAgentChange_settled_fields(1) [OF settled] switched(1) by simp
    with settled show ?thesis by blast
  qed
  have route: "POST_handoff trace request_json backend =
          \<lparr>res_status = 500,
           res_body = JObj [(''success'', JBool False),
                            (''message'', JStr trouble_switching),
                            (''error'', JStr (error_text err))]\<rparr>
        \<and> (\<exists>s'. handleAgentChange_settled now' date'
                   (served (POST_handoff trace request_json backend)) ?switched = Inr s'
                 \<and> currentAgent s' = agentName)"
    if failed: "forward trace request_json backend = Inl err"
    using failed stays [OF proxy_failure_not_served(2) [OF failed]]
    by (simp add: POST_handoff_def NextResponse_json_def)
  have direct: "\<exists>s'. handleAgentChange_settled now' date' (Rejected e) ?switched = Inr s'
            \<and> currentAgent s' = agentName"
    by (rule stays) (rule client_data_Rejected)
  from switched notice called after route direct show ?thesis by blast
qed

theorem agent_switch_witness:
  "handleAgentChange_settled 2 2
       (Resolved \<lparr>ok = True, status = 200,
          json = Inr (JObj [(''message'', JStr ''Hello from sales''),
                            (''to_agent'', JStr ''sales-agent'')])\<rparr>)
       (fst (handleAgentChange 1 1 ''sales-agent'' (ChatPage_initial []\<lparr>websocket := Some OPEN\<rparr>)))
     = Inr (fst (handleAgentChange 1 1 ''sales-agent'' (ChatPage_initial []\<lparr>websocket := Some OPEN\<rparr>))
            \<lparr>messages :=
               messages (fst (handleAgentChange 1 1 ''sales-agent''
                                (ChatPage_initial []\<lparr>websocket := Some OPEN\<rparr>))) @
               [\<lparr>msg_id = ''2'', content = JStr ''Hello from sales'',
                 sender = JStr ''sales-agent'', timestamp = 2, username = JUndefined,
                 isSystem = None, isUser = None\<rparr>]\<rparr>)
   \<and> snd (sendMessage ''hi''
        (fst (handleAgentChange 1 1 ''sales-agent'' (ChatPage_initial []\<lparr>websocket := Some OPEN\<rparr>))
            \<lparr>messages :=
               messages (fst (handleAgentChange 1 1 ''sales-agent''
                                (ChatPage_initial []\<lparr>websocket := Some OPEN\<rparr>))) @
               [\<lparr>msg_id = ''2'', content = JStr ''Hello from sales'',
                 sender = JStr ''sales-agent'', timestamp = 2, username = JUndefined,
                 isSystem = None, isUser = None\<rparr>]\<rparr>))
     = [WsSend (JObj [(''message'', JStr ''hi''), (''agent'', JStr ''sales-agent'')])]
   \<and> POST_handoff [] (Inl (JsOther ''Unexpected end of JSON input'')) (Rejected (JsOther ''unused''))
     = \<lparr>res_status = 500,
        res_body = JObj [(''success'', JBool False),
                         (''message'', JStr trouble_switching),
                         (''error'', JStr ''Unexpected end of JSON input'')]\<rparr>"
proof -
  let ?opened = "ChatPage_initial []\<lparr>websocket := Some OPEN\<rparr>"
  let ?switched = "fst (handleAgentChange 1 1 ''sales-agent'' ?opened)"
  let ?welcomed = "?switched\<lparr>messages := messages ?switched @
               [\<lparr>msg_id = ''2'', content = JStr ''Hello from sales'',
                 sender = JStr ''sales-agent'', timestamp = 2, username = JUndefined,
                 isSystem = None, isUser = None\<rparr>]\<rparr>"
  let ?answer = "Resolved \<lparr>ok = True, status = 200,
          json = Inr (JObj [(''message'', JStr ''Hello from sales''),
                            (''to_agent'', JStr ''sales-agent'')])\<rparr>"
  have settled: "handleAgentChange_settled 2 2 ?answer ?switched = Inr ?welcomed"
    by (simp add: handleAgentChange_settled_def client_data_def string_of_nat.simps)
  have typed: "websocket ?welcomed = Some OPEN \<and> trim ''hi'' \<noteq> []"
    by (simp add: handleAgentChange_def trim_def is_white_space_def)
  have failed: "forward [] (Inl (JsOther ''Unexpected end of JSON input'')) (Rejected (JsOther ''unused''))
     = Inl (JsOther ''Unexpected end of JSON input'')"
    by (simp add: forward_cases)
  note at_input = agent_switch
    [where now = 1 and date = 1 and agentName = "''sales-agent''" and s = "?opened"
       and now' = 2 and date' = 2 and fetched = "?answer" and s' = "?welcomed"
       and line = "''hi''" and trace = "[]"
       and request_json = "Inl (JsOther ''Unexpected end of JSON input'')"
       and backend = "Rejected (JsOther ''unused'')"
       and err = "JsOther ''Unexpected end of JSON input''"]
  from at_input settled typed
  have sent: "snd (sendMessage ''hi'' ?welcomed)
     = [WsSend (JObj [(''message'', JStr ''hi''), (''agent'', JStr ''sales-agent'')])]"
    by blast
  from at_input failed
  have reported: "POST_handoff [] (Inl (JsOther ''Unexpected end of JSON input'')) (Rejected (JsOther ''unused''))
     = \<lparr>res_status = 500,
        res_body = JObj [(''success'', JBool False),
                         (''message'', JStr trouble_switching),
                         (''error'', JStr (error_text (JsOther ''Unexpected end of JSON input'')))]\<rparr>"
    by blast
  from settled sent reported show ?thesis by simp
qed

text \<open>
  C5, as the specification states it, fails for the LiveKit chat component: on a
  connected room, \<^verbatim>\<open>handleSendMessage\<close> with the input \<^verbatim>\<open>hi\<close> puts the user's own message
  into the local list at send time.
\<close>

theorem local_echo_counterexample:
  "chat_messages (fst (handleSendMessage string_of_nat 1 2 ''alice'' True
      \<lparr>chat_messages = [], inputText = ''hi'', chat_isConnected = True, roomRef_current = True,
       chat_error = None\<rparr>))
   = [\<lparr>chat_id = ''1-alice'', chat_text = ''hi'', chat_sender = ''alice'', chat_timestamp = 2,
       isAgent = False\<rparr>]
   \<and> chat_messages (fst (handleSendMessage string_of_nat 1 2 ''alice'' True
      \<lparr>chat_messages = [], inputText = ''hi'', chat_isConnected = True, roomRef_current = True,
       chat_error = None\<rparr>))
   \<noteq> chat_messages \<lparr>chat_messages = [], inputText = ''hi'', chat_isConnected = True,
       roomRef_current = True, chat_error = None\<rparr>"
  by (simp add: handleSendMessage_def trim_def is_white_space_def string_of_nat.simps)

text \<open>
  C5, amended. The chat page over the WebSocket never touches its state at send time: on
  an open socket a message with content goes out as exactly one frame and appears in the
  list only when a frame comes back. The LiveKit chat component (both copies) appends the
  user's own message to its local list at send time and then publishes it to the room.
\<close>

theorem send_time_list:
  "fst (sendMessage line s) = s
   \<and> (websocket s = Some OPEN \<and> trim line \<noteq> [] \<longrightarrow>
        sendMessage line s =
          (s, [WsSend (JObj [(''message'', JStr line), (''agent'', JStr (currentAgent s))])]))
   \<and> (trim (inputText chat) \<noteq> [] \<and> roomRef_current chat \<and> chat_isConnected chat \<longrightarrow>
        chat_messages (fst (handleSendMessage number_text now now' user sent chat)) =
          chat_messages chat @
            [\<lparr>chat_id = number_text now @ ''-'' @ user, chat_text = inputText chat,
              chat_sender = user, chat_timestamp = now', isAgent = False\<rparr>]
        \<and> snd (handleSendMessage number_text now now' user sent chat) = [SendChatMessage (inputText chat)])"
  by (simp add: sendMessage_def handleSendMessage_def Let_def)

theorem send_time_list_witness:
  "sendMessage ''hi'' (ChatPage_initial []\<lparr>websocket := Some OPEN\<rparr>)
     = (ChatPage_initial []\<lparr>websocket := Some OPEN\<rparr>,
        [WsSend (JObj [(''message'', JStr ''hi''), (''agent'', JStr ''support-agent'')])])
   \<and> chat_messages (fst (handleSendMessage string_of_nat 1 2 ''alice'' False
        \<lparr>chat_messages = [], inputText = ''hi'', chat_isConnected = True, roomRef_current = True,
         chat_error = None\<rparr>))
     = [\<lparr>chat_id = ''1-alice'', chat_text = ''hi'', chat_sender = ''alice'', chat_timestamp = 2,
         isAgent = False\<rparr>]"
proof -
  have typed: "trim ''hi'' \<noteq> []"
    by (simp add: trim_def is_white_space_def)
  note at_input = send_time_list
    [where line = "''hi''" and s = "ChatPage_initial []\<lparr>websocket := Some OPEN\<rparr>"
       and chat = "\<lparr>chat_messages = [], inputText = ''hi'', chat_isConnected = True,
          roomRef_current = True, chat_error = None\<rparr>"
       and number_text = string_of_nat and now = 1 and now' = 2 and user = "''alice''"
       and sent = False]
  from at_input typed
  have page: "sendMessage ''hi'' (ChatPage_initial []\<lparr>websocket := Some OPEN\<rparr>)
     = (ChatPage_initial []\<lparr>websocket := Some OPEN\<rparr>,
        [WsSend (JObj [(''message'', JStr ''hi''),
           (''agent'', JStr (currentAgent (ChatPage_initial []\<lparr>websocket := Some OPEN\<rparr>)))])])"
    by simp
  from at_input typed
  have component: "chat_messages (fst (handleSendMessage string_of_nat 1 2 ''alice'' False
        \<lparr>chat_messages = [], inputText = ''hi'', chat_isConnected = True, roomRef_current = True,
         chat_error = None\<rparr>))
     = [\<lparr>chat_id = string_of_nat 1 @ ''-'' @ ''alice'', chat_text = ''hi'', chat_sender = ''alice'',
         chat_timestamp = 2, isAgent = False\<rparr>]"
    by simp
  from page component show ?thesis
    by (simp add: ChatPage_initial_def getItem_def string_of_nat.simps)
qed

text \<open>
  C6. On the WebSocket channel, every frame the chat page sends is a JSON object with
  exactly the fields \<^verbatim>\<open>message\<close> and \<^verbatim>\<open>agent\<close>, and only \<^verbatim>\<open>sendMessage\<close> on an open
  socket sends one. Every inbound frame the page renders is a JSON object whose
  \<^verbatim>\<open>type\<close> is \<^verbatim>\<open>message\<close> or \<^verbatim>\<open>system\<close>, and each such frame is rendered as one new
  message that carries the frame's \<^verbatim>\<open>content\<close>, \<^verbatim>\<open>sender\<close> and \<^verbatim>\<open>username\<close>, with
  \<^verbatim>\<open>isUser\<close> coerced to a boolean and \<^verbatim>\<open>isSystem\<close> true exactly when the type is
  \<^verbatim>\<open>system\<close>.
\<close>

theorem websocket_frames:
  "(WsSend frame \<in> set (snd (sendMessage line s)) \<longrightarrow>
       frame = JObj [(''message'', JStr line), (''agent'', JStr (currentAgent s))])
   \<and> (websocket s = Some OPEN \<and> trim line \<noteq> [] \<longrightarrow>
       snd (sendMessage line s)
         = [WsSend (JObj [(''message'', JStr line), (''agent'', JStr (currentAgent s))])])
   \<and> WsSend frame \<notin> set (snd (handleAgentChange now date agentName s))
   \<and> (ws_onmessage now date parsed s = Inr s' \<and> messages s' \<noteq> messages s \<longrightarrow>
        (\<exists>fields. parsed = Some (JObj fields)
           \<and> (get_prop (JObj fields) ''type'' = JStr ''message''
                \<or> get_prop (JObj fields) ''type'' = JStr ''system'')))
   \<and> (get_prop data ''type'' = JStr ''message'' \<or> get_prop data ''type'' = JStr ''system'' \<longrightarrow>
        ws_onmessage now date (Some data) s =
          Inr (s\<lparr>messages := messages s @
                 [\<lparr>msg_id = string_of_nat now,
                   content = get_prop data ''content'',
                   sender = get_prop data ''sender'',
                   timestamp = date,
                   username = get_prop data ''username'',
                   isSystem = Some (get_prop data ''type'' = JStr ''system''),
                   isUser = Some (truthy (get_prop data ''isUser''))\<rparr>]\<rparr>))"
proof -
  have only_shape: "WsSend frame \<in> set (snd (sendMessage line s)) \<longrightarrow>
       frame = JObj [(''message'', JStr line), (''agent'', JStr (currentAgent s))]"
    by (simp add: sendMessage_def)
  have sent: "websocket s = Some OPEN \<and> trim line \<noteq> [] \<longrightarrow>
       snd (sendMessage line s)
         = [WsSend (JObj [(''message'', JStr line), (''agent'', JStr (currentAgent s))])]"
    by (simp add: sendMessage_def)
  have no_frame: "WsSend frame \<notin> set (snd (handleAgentChange now date agentName s))"
    by (simp add: handleAgentChange_def)
  have rendered_only: "ws_onmessage now date parsed s = Inr s' \<and> messages s' \<noteq> messages s \<longrightarrow>
        (\<exists>fields. parsed = Some (JObj fields)
           \<and> (get_prop (JObj fields) ''type'' = JStr ''message''
                \<or> get_prop (JObj fields) ''type'' = JStr ''system''))"
  proof (cases parsed)
    case None
    then show ?thesis by (simp add: ws_onmessage_def)
  next
    case (Some data)
    show ?thesis
    proof (cases "get_prop data ''type'' = JStr ''message'' \<or> get_prop data ''type'' = JStr ''system''")
      case True
      then obtain fields where "data = JObj fields"
        using get_prop_string_is_object by blast
      with True Some show ?thesis by blast
    next
      case False
      with Some show ?thesis by (auto simp: ws_onmessage_def split: if_splits)
    qed
  qed
  have rendered: "get_prop data ''type'' = JStr ''message'' \<or> get_prop data ''type'' = JStr ''system'' \<longrightarrow>
        ws_onmessage now date (Some data) s =
          Inr (s\<lparr>messages := messages s @
                 [\<lparr>msg_id = string_of_nat now,
                   content = get_prop data ''content'',
                   sender = get_prop data ''sender'',
                   timestamp = date,
                   username = get_prop data ''username'',
                   isSystem = Some (get_prop data ''type'' = JStr ''system''),
                   isUser = Some (truthy (get_prop data ''isUser''))\<rparr>]\<rparr>)"
  proof
    assume known: "get_prop data ''type'' = JStr ''message'' \<or> get_prop data ''type'' = JStr ''system''"
    then obtain fields where "data = JObj fields"
      using get_prop_string_is_object by blast
    with known show "ws_onmessage now date (Some data) s =
          Inr (s\<lparr>messages := messages s @
                 [\<lparr>msg_id = string_of_nat now,
                   content = get_prop data ''content'',
                   sender = get_prop data ''sender'',
                   timestamp = date,
                   username = get_prop data ''username'',
                   isSystem = Some (get_prop data ''type'' = JStr ''system''),
                   isUser = Some (truthy (get_prop data ''isUser''))\<rparr>]\<rparr>)"
      by (auto simp: ws_onmessage_def)
  qed
  from only_shape sent no_frame rendered_only rendered show ?thesis by blast
qed

theorem websocket_frames_witness:
  "WsSend (JObj [(''message'', JStr ''hi''), (''agent'', JStr ''support-agent'')])
     \<in> set (snd (sendMessage ''hi'' (ChatPage_initial []\<lparr>websocket := Some OPEN\<rparr>)))
   \<and> snd (sendMessage ''hi'' (ChatPage_initial []\<lparr>websocket := Some OPEN\<rparr>))
     = [WsSend (JObj [(''message'', JStr ''hi''), (''agent'', JStr ''support-agent'')])]
   \<and> ws_onmessage 4 5
        (Some (JObj [(''type'', JStr ''system''), (''content'', JStr ''alice joined''),
                     (''sender'', JStr ''system''), (''isUser'', JNum 0)]))
        (ChatPage_initial [])
     = Inr (ChatPage_initial []\<lparr>messages :=
         [\<lparr>msg_id = ''4'', content = JStr ''alice joined'', sender = JStr ''system'',
           timestamp = 5, username = JUndefined, isSystem = Some True, isUser = Some False\<rparr>]\<rparr>)
   \<and> (\<exists>fields.
         Some (JObj [(''type'', JStr ''system''), (''content'', JStr ''alice joined''),
                     (''sender'', JStr ''system''), (''isUser'', JNum 0)]) = Some (JObj fields)
         \<and> (get_prop (JObj fields) ''type'' = JStr ''message''
              \<or> get_prop (JObj fields) ''type'' = JStr ''system''))"
proof -
  let ?opened = "ChatPage_initial []\<lparr>websocket := Some OPEN\<rparr>"
  let ?frame = "JObj [(''message'', JStr ''hi''), (''agent'', JStr ''support-agent'')]"
  let ?joined = "JObj [(''type'', JStr ''system''), (''content'', JStr ''alice joined''),
                       (''sender'', JStr ''system''), (''isUser'', JNum 0)]"
  let ?shown = "ChatPage_initial []\<lparr>messages :=
         [\<lparr>msg_id = ''4'', content = JStr ''alice joined'', sender = JStr ''system'',
           timestamp = 5, username = JUndefined, isSystem = Some True, isUser = Some False\<rparr>]\<rparr>"
  have typed: "websocket ?opened = Some OPEN \<and> trim ''hi'' \<noteq> []"
    by (simp add: trim_def is_white_space_def)
  have out: "WsSend ?frame \<in> set (snd (sendMessage ''hi'' ?opened))"
    by (simp add: sendMessage_def trim_def is_white_space_def ChatPage_initial_def getItem_def)
  have known: "get_prop ?joined ''type'' = JStr ''message'' \<or> get_prop ?joined ''type'' = JStr ''system''"
    by simp
  have changed: "ws_onmessage 4 5 (Some ?joined) (ChatPage_initial []) = Inr ?shown
      \<and> messages ?shown \<noteq> messages (ChatPage_initial [])"
    by (simp add: ws_onmessage_def ChatPage_initial_def string_of_nat.simps)
  note at_input = websocket_frames
    [where frame = "?frame" and line = "''hi''" and s = "?opened"]
  from at_input typed out
  have sent: "snd (sendMessage ''hi'' ?opened)
     = [WsSend (JObj [(''message'', JStr ''hi''), (''agent'', JStr (currentAgent ?opened))])]"
    by blast
  note at_frame = websocket_frames
    [where now = 4 and date = 5 and s = "ChatPage_initial []" and parsed = "Some ?joined"
       and s' = "?shown" and data = "?joined"]
  from at_frame known
  have rendered: "ws_onmessage 4 5 (Some ?joined) (ChatPage_initial [])
     = Inr (ChatPage_initial []\<lparr>messages := messages (ChatPage_initial []) @
         [\<lparr>msg_id = string_of_nat 4,
           content = get_prop ?joined ''content'',
           sender = get_prop ?joined ''sender'',
           timestamp = 5,
           username = get_prop ?joined ''username'',
           isSystem = Some (get_prop ?joined ''type'' = JStr ''system''),
           isUser = Some (truthy (get_prop ?joined ''isUser''))\<rparr>]\<rparr>)"
    by blast
  from at_frame changed
  have object: "\<exists>fields. Some ?joined = Some (JObj fields)
         \<and> (get_prop (JObj fields) ''type'' = JStr ''message''
              \<or> get_prop (JObj fields) ''type'' = JStr ''system'')"
    by blast
  have "snd (sendMessage ''hi'' ?opened) = [WsSend ?frame]"
    using sent by (simp add: ChatPage_initial_def getItem_def)
  moreover have "ws_onmessage 4 5 (Some ?joined) (ChatPage_initial []) = Inr ?shown"
    using rendered by (simp add: ChatPage_initial_def string_of_nat.simps)
  ultimately show ?thesis using out object by blast
qed



text \<open>
  C9. A send whose content is empty or only white space is a no-op: the chat page's
  \<^verbatim>\<open>sendMessage\<close> and the LiveKit component's \<^verbatim>\<open>handleSendMessage\<close> return with the
  state unchanged, the message list included, and with nothing sent: no WebSocket frame,
  no HTTP request, no room message.
\<close>

theorem blank_send_is_noop:
  "((\<forall>c\<in>set line. is_white_space c) \<longrightarrow> sendMessage line s = (s, []))
   \<and> ((\<forall>c\<in>set (inputText chat). is_white_space c) \<longrightarrow>
         handleSendMessage number_text now now' user sent chat = (chat, []))"
  by (simp add: sendMessage_def handleSendMessage_def trim_empty_iff)

theorem blank_send_is_noop_witness:
  "sendMessage ('' '' @ [CHR 0x09] @ '' '') (ChatPage_initial []\<lparr>websocket := Some OPEN\<rparr>)
     = (ChatPage_initial []\<lparr>websocket := Some OPEN\<rparr>, [])
   \<and> handleSendMessage string_of_nat 1 2 ''alice'' True
       \<lparr>chat_messages = [], inputText = [], chat_isConnected = True, roomRef_current = True,
        chat_error = None\<rparr>
     = (\<lparr>chat_messages = [], inputText = [], chat_isConnected = True, roomRef_current = True,
         chat_error = None\<rparr>, [])"
proof -
  have blank: "\<forall>c\<in>set ('' '' @ [CHR 0x09] @ '' ''). is_white_space c"
    by (simp add: is_white_space_def)
  have empty: "\<forall>c\<in>set (inputText \<lparr>chat_messages = ([] :: nat ChatMessage list), inputText = [],
       chat_isConnected = True, roomRef_current = True, chat_error = None\<rparr>). is_white_space c"
    by simp
  from blank_send_is_noop
    [where line = "'' '' @ [CHR 0x09] @ '' ''"
       and s = "ChatPage_initial []\<lparr>websocket := Some OPEN\<rparr>"
       and chat = "\<lparr>chat_messages = ([] :: nat ChatMessage list), inputText = [],
          chat_isConnected = True, roomRef_current = True, chat_error = None\<rparr>"
       and number_text = string_of_nat and now = 1 and now' = 2 and user = "''alice''"
       and sent = True]
    blank empty
  show ?thesis by blast
qed

text \<open>
  C10. An inbound frame whose \<^verbatim>\<open>type\<close> is neither \<^verbatim>\<open>message\<close> nor \<^verbatim>\<open>system\<close> leaves
  the chat page as it was, its message list included; the handler returns normally for
  every such frame that has fields to read (any parsed JSON value but \<^verbatim>\<open>null\<close>). In
  the LiveKit component, a received message whose type is not \<^verbatim>\<open>chat\<close> leaves the
  component's state as it was.
\<close>

theorem unknown_frames_ignored:
  "(get_prop data ''type'' \<noteq> JStr ''message'' \<and> get_prop data ''type'' \<noteq> JStr ''system'' \<longrightarrow>
       page_step s (Frame now date (Some data)) = Inr s
       \<and> (data \<noteq> JNull \<and> data \<noteq> JUndefined \<longrightarrow> ws_onmessage now date (Some data) s = Inr s))
   \<and> (received_type message \<noteq> ''chat'' \<longrightarrow>
         handleMessageReceived number_text agentName message identity chat = chat)"
  by (simp add: ws_onmessage_def handleMessageReceived_def)

theorem unknown_frames_ignored_witness:
  "ws_onmessage 1 1 (Some (JObj [(''type'', JStr ''typing''), (''content'', JStr ''...'')]))
       (ChatPage_initial []) = Inr (ChatPage_initial [])
   \<and> handleMessageReceived string_of_nat ''agent''
       \<lparr>received_type = ''presence'', received_text = ''here'', received_timestamp = 5\<rparr> ''bob''
       \<lparr>chat_messages = [], inputText = ''hi'', chat_isConnected = True, roomRef_current = True,
        chat_error = None\<rparr>
     = \<lparr>chat_messages = [], inputText = ''hi'', chat_isConnected = True, roomRef_current = True,
        chat_error = None\<rparr>"
proof -
  have unknown: "get_prop (JObj [(''type'', JStr ''typing''), (''content'', JStr ''...'')]) ''type''
        \<noteq> JStr ''message''
      \<and> get_prop (JObj [(''type'', JStr ''typing''), (''content'', JStr ''...'')]) ''type''
        \<noteq> JStr ''system''"
    by simp
  have object: "JObj [(''type'', JStr ''typing''), (''content'', JStr ''...'')] \<noteq> JNull
      \<and> JObj [(''type'', JStr ''typing''), (''content'', JStr ''...'')] \<noteq> JUndefined"
    by simp
  have presence: "received_type \<lparr>received_type = ''presence'', received_text = ''here'',
      received_timestamp = 5 :: nat\<rparr> \<noteq> ''chat''"
    by simp
  from unknown_frames_ignored
    [where data = "JObj [(''type'', JStr ''typing''), (''content'', JStr ''...'')]"
       and s = "ChatPage_initial []" and now = 1 and date = 1
       and message = "\<lparr>received_type = ''presence'', received_text = ''here'',
          received_timestamp = 5 :: nat\<rparr>"
       and number_text = string_of_nat and agentName = "''agent''" and identity = "''bob''"
       and chat = "\<lparr>chat_messages = [], inputText = ''hi'', chat_isConnected = True,
          roomRef_current = True, chat_error = None\<rparr>"]
    unknown object presence
  show ?thesis by blast
qed

end
